theory Spec2Isabelle
  imports Complex_Main
begin

section \<open>Vectors and matrices of \<^verbatim>\<open>slice_obj.py\<close>\<close>

text \<open>
  The numpy arrays of the source are three-component vectors and 3x3 matrices of floats.
  They are modelled over the real numbers: rounding, infinities and NaN are not part of
  this development, and every statement below is about exact arithmetic.
\<close>

type_synonym vec3 = "real \<times> real \<times> real"
type_synonym mat3 = "vec3 \<times> vec3 \<times> vec3"

definition dot :: "vec3 \<Rightarrow> vec3 \<Rightarrow> real" where
  "dot a b = (case a of (a1, a2, a3) \<Rightarrow> case b of (b1, b2, b3) \<Rightarrow> a1 * b1 + a2 * b2 + a3 * b3)"

text \<open>\<^verbatim>\<open>M @ v\<close>: each component is the dot product of a row with the vector.\<close>

definition matvec :: "mat3 \<Rightarrow> vec3 \<Rightarrow> vec3" where
  "matvec m v = (case m of (r1, r2, r3) \<Rightarrow> (dot r1 v, dot r2 v, dot r3 v))"

text \<open>\<^verbatim>\<open>np.linalg.norm(v)\<close>\<close>

definition linalg_norm :: "vec3 \<Rightarrow> real" where
  "linalg_norm v = (case v of (x, y, z) \<Rightarrow> sqrt (x * x + y * y + z * z))"

text \<open>\<^verbatim>\<open>v / s\<close>, componentwise.\<close>

definition vdiv :: "vec3 \<Rightarrow> real \<Rightarrow> vec3" where
  "vdiv v s = (case v of (x, y, z) \<Rightarrow> (x / s, y / s, z / s))"

text \<open>\<^verbatim>\<open>np.cross(a, b)\<close>\<close>

definition cross :: "vec3 \<Rightarrow> vec3 \<Rightarrow> vec3" where
  "cross a b = (case a of (a1, a2, a3) \<Rightarrow> case b of (b1, b2, b3) \<Rightarrow>
     (a2 * b3 - a3 * b2, a3 * b1 - a1 * b3, a1 * b2 - a2 * b1))"

text \<open>\<^verbatim>\<open>np.deg2rad\<close>\<close>

definition deg2rad :: "real \<Rightarrow> real" where
  "deg2rad d = d * pi / 180"

section \<open>\<^verbatim>\<open>calculate_plane_normal\<close>\<close>

definition rot_mat_y :: "real \<Rightarrow> mat3" where
  "rot_mat_y rad_ry =
     ((cos rad_ry, 0, sin rad_ry),
      (0, 1, 0),
      (- sin rad_ry, 0, cos rad_ry))"

definition rot_mat_x :: "real \<Rightarrow> mat3" where
  "rot_mat_x rad_rx =
     ((1, 0, 0),
      (0, cos rad_rx, - sin rad_rx),
      (0, sin rad_rx, cos rad_rx))"

text \<open>
  The vector before the last line of the function: the Z unit vector, multiplied by the
  Y matrix and then by the X matrix.
\<close>

definition rotated_normal :: "real \<Rightarrow> real \<Rightarrow> vec3" where
  "rotated_normal rx_deg ry_deg =
     (let normal_vec = (0, 0, 1);
          normal_vec = matvec (rot_mat_y (deg2rad ry_deg)) normal_vec;
          normal_vec = matvec (rot_mat_x (deg2rad rx_deg)) normal_vec
      in normal_vec)"

text \<open>
  The last two lines:
  \<^verbatim>\<open>norm = np.linalg.norm(normal_vec)\<close>,
  \<^verbatim>\<open>return normal_vec / norm if norm > 0 else np.array([0.0, 0.0, 1.0])\<close>.
\<close>

definition normalize_or_z :: "vec3 \<Rightarrow> vec3" where
  "normalize_or_z normal_vec =
     (let norm = linalg_norm normal_vec
      in if norm > 0 then vdiv normal_vec norm else (0, 0, 1))"

text \<open>The parameter \<open>rz_deg\<close> is accepted and never read.\<close>

definition calculate_plane_normal :: "real \<Rightarrow> real \<Rightarrow> real \<Rightarrow> vec3" where
  "calculate_plane_normal rx_deg ry_deg rz_deg = normalize_or_z (rotated_normal rx_deg ry_deg)"


section \<open>\<^verbatim>\<open>calculate_camera_up_vector\<close>\<close>

text \<open>
  \<^verbatim>\<open>np.allclose(a, b)\<close> with its default tolerances \<open>rtol = 1e-05\<close> and
  \<open>atol = 1e-08\<close>: every component satisfies \<open>|a - b| \<le> atol + rtol * |b|\<close>.
\<close>

definition isclose :: "real \<Rightarrow> real \<Rightarrow> bool" where
  "isclose a b \<longleftrightarrow> \<bar>a - b\<bar> \<le> 1 / 10 ^ 8 + 1 / 10 ^ 5 * \<bar>b\<bar>"

definition allclose :: "vec3 \<Rightarrow> vec3 \<Rightarrow> bool" where
  "allclose a b = (case a of (a1, a2, a3) \<Rightarrow> case b of (b1, b2, b3) \<Rightarrow>
     isclose a1 b1 \<and> isclose a2 b2 \<and> isclose a3 b3)"

definition calculate_camera_up_vector :: "vec3 \<Rightarrow> vec3" where
  "calculate_camera_up_vector plane_normal =
     (if allclose plane_normal (0, 0, 1) \<or> allclose plane_normal (0, 0, - 1) then (0, 1, 0)
      else if allclose plane_normal (0, 1, 0) \<or> allclose plane_normal (0, - 1, 0) then (0, 0, 1)
      else
        let z_axis = (0, 0, 1);
            up = cross plane_normal z_axis;
            up = (if linalg_norm up < 1 / 10 ^ 6 then (0, 1, 0) else up)
        in vdiv up (linalg_norm up))"


section \<open>The environment of the program\<close>

text \<open>
  The mesh library (pyvista), the file system, the standard output and the random number
  generator are outside the repository. Each call into them is an oracle of the
  environment, so that every statement below holds whatever the library and the file
  system do. An oracle of the library takes the number of earlier calls of
  \<^verbatim>\<open>create_slice_image_pyvista\<close> as its first argument: the same file may load for one
  locator and fail for the next. An exception of the library carries its message.
\<close>

datatype 'a outcome = Raises string | Returns 'a

record mesh =
  n_points :: nat

record polydata =
  truthy :: bool
  points :: "vec3 list"

record camera =
  cam_focal_point :: vec3
  cam_position :: vec3
  cam_up :: vec3
  cam_parallel_scale :: real

text \<open>
  The statements of step 3 and 4 of \<^verbatim>\<open>create_slice_image_pyvista\<close> that may raise,
  in the order of the source: the point filter and the plotter set-up, \<^verbatim>\<open>os.makedirs\<close>,
  \<^verbatim>\<open>plotter.screenshot\<close>, and what follows the screenshot (\<^verbatim>\<open>plotter.close\<close> and
  the last \<^verbatim>\<open>print\<close>).
\<close>

datatype stage = Plotting | MakeDirs | Screenshot | Close

text \<open>
  \<open>stdout_rejects\<close> says of a text that \<^verbatim>\<open>print\<close> cannot encode it for the standard
  output, so that a \<^verbatim>\<open>print\<close> of an f-string with this text in it raises
  \<^verbatim>\<open>UnicodeEncodeError\<close>. The literal parts of every f-string of the source and the
  numbers it prints are ASCII.
\<close>

record env =
  read_mesh :: "nat \<Rightarrow> string \<Rightarrow> mesh outcome"
  slice_mesh :: "nat \<Rightarrow> mesh \<Rightarrow> vec3 \<Rightarrow> vec3 \<Rightarrow> polydata outcome"
  render_fault :: "nat \<Rightarrow> polydata \<Rightarrow> camera \<Rightarrow> string \<Rightarrow> (stage \<times> string) option"
  stdout_rejects :: "string \<Rightarrow> bool"
  randint :: "nat \<Rightarrow> nat"
  path_exists :: "string \<Rightarrow> bool"
  base_dir :: string
  makedirs_raises :: "string \<Rightarrow> bool"

text \<open>
  What the program leaves behind: the number of random draws, the locator ids that
  \<^verbatim>\<open>create_slice_image_pyvista\<close> was called with, the directories created and the
  image files written.
\<close>

record world =
  draws :: nat
  calls :: "string list"
  made_dirs :: "string list"
  written :: "string list"

text \<open>
  The exceptions that leave a function of the program: \<^verbatim>\<open>np.deg2rad\<close> on a number it
  cannot convert, a \<^verbatim>\<open>print\<close> of a text the standard output cannot encode, a failing
  \<^verbatim>\<open>request.get_json()\<close> and a failing \<^verbatim>\<open>os.makedirs\<close> of the handler.
\<close>

datatype exn = TypeError | UnicodeEncodeError | GetJsonError | MakedirsError

section \<open>Paths and strings\<close>

text \<open>\<^verbatim>\<open>os.path\<close> on a POSIX system (\<^verbatim>\<open>posixpath\<close>).\<close>

definition isabs :: "string \<Rightarrow> bool" where
  "isabs s = (case s of [] \<Rightarrow> False | c # _ \<Rightarrow> c = CHR ''/'')"

definition path_join :: "string \<Rightarrow> string \<Rightarrow> string" where
  "path_join a b =
     (if isabs b then b
      else if a = [] \<or> last a = CHR ''/'' then a @ b
      else a @ ''/'' @ b)"

definition basename :: "string \<Rightarrow> string" where
  "basename p = rev (takeWhile (\<lambda>c. c \<noteq> CHR ''/'') (rev p))"

text \<open>\<^verbatim>\<open>str(n)\<close> of a natural number.\<close>

fun str_nat :: "nat \<Rightarrow> string" where
  "str_nat n =
     (if n < 10 then [''0123456789'' ! n]
      else str_nat (n div 10) @ [''0123456789'' ! (n mod 10)])"

declare str_nat.simps [simp del]

definition quoted :: "string \<Rightarrow> string" where
  "quoted s = [CHR 0x27] @ s @ [CHR 0x27]"

section \<open>\<^verbatim>\<open>create_slice_image_pyvista\<close>\<close>

definition vadd :: "vec3 \<Rightarrow> vec3 \<Rightarrow> vec3" where
  "vadd a b = (case a of (a1, a2, a3) \<Rightarrow> case b of (b1, b2, b3) \<Rightarrow> (a1 + b1, a2 + b2, a3 + b3))"

definition vscale :: "vec3 \<Rightarrow> real \<Rightarrow> vec3" where
  "vscale v s = (case v of (x, y, z) \<Rightarrow> (x * s, y * s, z * s))"

text \<open>
  The camera of the plotter: focal point at the plane origin, position
  \<^verbatim>\<open>plane_origin + plane_normal * radius * 0.5\<close>, the up vector of
  \<open>calculate_camera_up_vector\<close> and the parallel scale \<open>radius\<close>.
\<close>

definition plotter_camera :: "vec3 \<Rightarrow> vec3 \<Rightarrow> real \<Rightarrow> camera" where
  "plotter_camera plane_origin plane_normal radius =
     \<lparr>cam_focal_point = plane_origin,
      cam_position = vadd plane_origin (vscale (vscale plane_normal radius) (1 / 2)),
      cam_up = calculate_camera_up_vector plane_normal,
      cam_parallel_scale = radius\<rparr>"

text \<open>
  Lines 98 to 102, the outer \<^verbatim>\<open>except\<close>: it prints the locator id, which line 16 has
  printed before, and the message of the exception, and returns \<open>False\<close>. The
  \<^verbatim>\<open>print\<close> is inside no \<^verbatim>\<open>try\<close>, so a message that the standard output cannot
  encode makes the function raise.
\<close>

definition outer_except :: "env \<Rightarrow> string \<Rightarrow> world \<Rightarrow> (exn + bool) \<times> world" where
  "outer_except e message w =
     (if stdout_rejects e message then (Inl UnicodeEncodeError, w) else (Inr False, w))"

text \<open>
  The function raises where a statement outside every \<^verbatim>\<open>try\<close> raises: the
  \<^verbatim>\<open>print\<close> of the locator id in line 16 (line 17 prints numbers only) and the
  \<^verbatim>\<open>print\<close> of the outer \<^verbatim>\<open>except\<close>. It returns \<open>False\<close> where the source returns
  it or catches an exception, and \<open>True\<close> for an empty slice and after a completed
  rendering. A failure of the read step is caught by the inner \<^verbatim>\<open>except\<close>; if its
  \<^verbatim>\<open>print\<close> raises, the outer \<^verbatim>\<open>except\<close> catches that and prints the ASCII message
  of the encoding error. The temporary file of the source is created and removed within
  the read step and is not recorded.
\<close>

definition create_slice_image_pyvista ::
  "env \<Rightarrow> world \<Rightarrow> string \<Rightarrow> vec3 \<Rightarrow> vec3 \<Rightarrow> string \<Rightarrow> real \<Rightarrow> string
     \<Rightarrow> (exn + bool) \<times> world" where
  "create_slice_image_pyvista e w obj_file_path plane_origin plane_normal locator_id radius output_dir =
     (let t = length (calls w);
          w = w\<lparr>calls := calls w @ [locator_id]\<rparr>
      in if stdout_rejects e locator_id then (Inl UnicodeEncodeError, w)
         else case read_mesh e t obj_file_path of
           Raises message \<Rightarrow> (Inr False, w)
         | Returns mesh_pv \<Rightarrow>
             if \<not> n_points mesh_pv > 0 then (Inr False, w)
             else case slice_mesh e t mesh_pv plane_normal plane_origin of
               Raises message \<Rightarrow> outer_except e message w
             | Returns slice_polydata \<Rightarrow>
                 if \<not> truthy slice_polydata \<or> length (points slice_polydata) = 0
                 then (Inr True, w)
                 else
                   let image_path = path_join output_dir (locator_id @ ''.png'')
                   in case render_fault e t slice_polydata
                             (plotter_camera plane_origin plane_normal radius) image_path of
                        Some (Plotting, message) \<Rightarrow> outer_except e message w
                      | Some (MakeDirs, message) \<Rightarrow> outer_except e message w
                      | Some (Screenshot, message) \<Rightarrow>
                          outer_except e message (w\<lparr>made_dirs := made_dirs w @ [output_dir]\<rparr>)
                      | Some (Close, message) \<Rightarrow>
                          outer_except e message
                            (w\<lparr>made_dirs := made_dirs w @ [output_dir],
                               written := written w @ [image_path]\<rparr>)
                      | None \<Rightarrow>
                          (Inr True, w\<lparr>made_dirs := made_dirs w @ [output_dir],
                                         written := written w @ [image_path]\<rparr>))"

section \<open>\<^verbatim>\<open>process_locators_for_obj\<close>\<close>

text \<open>
  A JSON number is a Python \<^verbatim>\<open>int\<close> of any size or a \<^verbatim>\<open>float\<close>.
\<close>

datatype jnum = JInt int | JFloat real

definition num_value :: "jnum \<Rightarrow> real" where
  "num_value v = (case v of JInt n \<Rightarrow> real_of_int n | JFloat r \<Rightarrow> r)"

text \<open>
  A numpy function of one number converts a Python \<^verbatim>\<open>int\<close> to a 64-bit integer, signed
  or unsigned. An \<^verbatim>\<open>int\<close> below \<open>-2^63\<close> or from \<open>2^64\<close> on has no such type,
  and \<^verbatim>\<open>np.deg2rad\<close> raises \<^verbatim>\<open>TypeError\<close> on it.
\<close>

definition np_rejects :: "jnum \<Rightarrow> bool" where
  "np_rejects v = (case v of JInt n \<Rightarrow> n < - (2 ^ 63) \<or> 2 ^ 64 \<le> n | JFloat r \<Rightarrow> False)"

text \<open>
  The call of \<open>calculate_plane_normal\<close> on the numbers of a locator: \<^verbatim>\<open>np.deg2rad\<close>
  is applied to \<open>ry_deg\<close> in line 131 and to \<open>rx_deg\<close> in line 140, and \<open>rz_deg\<close> is
  never read.
\<close>

definition calculate_plane_normal_call :: "jnum \<Rightarrow> jnum \<Rightarrow> jnum \<Rightarrow> exn + vec3" where
  "calculate_plane_normal_call rx_deg ry_deg rz_deg =
     (if np_rejects ry_deg then Inl TypeError
      else if np_rejects rx_deg then Inl TypeError
      else Inr (calculate_plane_normal (num_value rx_deg) (num_value ry_deg) (num_value rz_deg)))"

text \<open>
  A locator record is a JSON object; a key may be absent. The values have the types of
  the data model: the id is a string and the six coordinates are numbers. Values of other
  JSON types are outside this model.
\<close>

record locator =
  loc_id :: "string option"
  loc_x :: "jnum option"
  loc_y :: "jnum option"
  loc_z :: "jnum option"
  loc_rx :: "jnum option"
  loc_ry :: "jnum option"
  loc_rz :: "jnum option"

text \<open>\<^verbatim>\<open>d.get(key, default)\<close>, on the value stored under the key, if any.\<close>

definition get_or :: "'a option \<Rightarrow> 'a \<Rightarrow> 'a" where
  "get_or v d = (case v of None \<Rightarrow> d | Some x \<Rightarrow> x)"

text \<open>A result is a dictionary with string keys and string values, in insertion order.\<close>

type_synonym slice_result = "(string \<times> string) list"

text \<open>The two dictionaries that the loop appends to \<^verbatim>\<open>results\<close>.\<close>

definition success_entry :: "string \<Rightarrow> string \<Rightarrow> slice_result" where
  "success_entry output_dir locator_id =
     [(''id'', locator_id), (''status'', ''success''),
      (''image_path'', path_join output_dir (locator_id @ ''.png''))]"

definition error_entry :: "string \<Rightarrow> slice_result" where
  "error_entry locator_id =
     [(''id'', locator_id), (''status'', ''error''),
      (''message'', ''Failed to create slice image for '' @ locator_id @ '' using PyVista'')]"

text \<open>
  The body of the loop, lines 159 to 177. Python evaluates the default argument of
  \<^verbatim>\<open>loc_data.get\<close> before the call, so a random number is drawn for every locator,
  with or without an id. Nothing in the body is inside a \<^verbatim>\<open>try\<close>: an exception of
  \<open>calculate_plane_normal\<close> or of \<open>create_slice_image_pyvista\<close> leaves the loop.
\<close>

definition process_locator ::
  "env \<Rightarrow> string \<Rightarrow> string \<Rightarrow> locator \<Rightarrow> world \<Rightarrow> (exn + slice_result) \<times> world" where
  "process_locator e obj_file_path output_dir loc_data w =
     (let fallback = ''unknown_loc_'' @ str_nat (randint e (draws w) mod 1000);
          w = w\<lparr>draws := draws w + 1\<rparr>;
          locator_id = get_or (loc_id loc_data) fallback;
          plane_origin = (num_value (get_or (loc_x loc_data) (JFloat 0)),
                          num_value (get_or (loc_y loc_data) (JFloat 0)),
                          num_value (get_or (loc_z loc_data) (JFloat 0)));
          slice_radius = 200
      in case calculate_plane_normal_call (get_or (loc_rx loc_data) (JFloat 0))
                (get_or (loc_ry loc_data) (JFloat 0)) (get_or (loc_rz loc_data) (JFloat 0)) of
           Inl ex \<Rightarrow> (Inl ex, w)
         | Inr plane_normal \<Rightarrow>
             (case create_slice_image_pyvista e w obj_file_path plane_origin plane_normal
                     locator_id slice_radius output_dir of
                (Inl ex, w) \<Rightarrow> (Inl ex, w)
              | (Inr True, w) \<Rightarrow> (Inr (success_entry output_dir locator_id), w)
              | (Inr False, w) \<Rightarrow> (Inr (error_entry locator_id), w)))"

text \<open>The \<^verbatim>\<open>for\<close> loop: an exception of the body ends it.\<close>

fun locators_loop ::
  "env \<Rightarrow> string \<Rightarrow> string \<Rightarrow> locator list \<Rightarrow> slice_result list \<Rightarrow> world
     \<Rightarrow> (exn + slice_result list) \<times> world" where
  "locators_loop e obj_file_path output_dir [] results w = (Inr results, w)"
| "locators_loop e obj_file_path output_dir (loc_data # rest) results w =
     (case process_locator e obj_file_path output_dir loc_data w of
        (Inl ex, w) \<Rightarrow> (Inl ex, w)
      | (Inr r, w) \<Rightarrow> locators_loop e obj_file_path output_dir rest (results @ [r]) w)"

text \<open>Line 153 prints the path of the mesh before the loop, outside every \<^verbatim>\<open>try\<close>.\<close>

definition process_locators_for_obj ::
  "env \<Rightarrow> world \<Rightarrow> string \<Rightarrow> locator list \<Rightarrow> string
     \<Rightarrow> (exn + bool \<times> slice_result list) \<times> world" where
  "process_locators_for_obj e w obj_file_path locators_data_list output_dir =
     (if stdout_rejects e obj_file_path then (Inl UnicodeEncodeError, w)
      else case locators_loop e obj_file_path output_dir locators_data_list [] w of
        (Inl ex, w) \<Rightarrow> (Inl ex, w)
      | (Inr results, w) \<Rightarrow> (Inr (True, results), w))"

section \<open>The \<^verbatim>\<open>/slice\<close> handler of \<^verbatim>\<open>app.py\<close>\<close>

text \<open>
  The value of \<^verbatim>\<open>request.get_json()\<close>: either a value that Python takes for false
  (\<^verbatim>\<open>None\<close>, an empty object), or a non-empty JSON object, given by what
  \<^verbatim>\<open>data.get\<close> returns for its two keys (\<open>None\<close> for an absent key). The path is a
  string and the locators are a list of locator records; values of other JSON types are
  outside this model. The call itself may raise.
\<close>

record request_data =
  req_obj_file_path :: "string option"
  req_locators :: "locator list option"

datatype json_body = Falsy | Object request_data

text \<open>
  The four JSON bodies of the handler: a single \<^verbatim>\<open>error\<close> message; the body of a
  completed run (message, file processed, number of locators, results); the body of the
  branch taken when the batch reports failure (file processed, details); and the body of
  the outer exception handler, for the exception it caught.
\<close>

datatype resp_body =
    ErrorBody string
  | CompletedBody string string nat "slice_result list"
  | SlicingErrorsBody string "slice_result list"
  | UnexpectedBody exn

type_synonym response = "resp_body \<times> nat"

text \<open>\<^verbatim>\<open>not v\<close> for a string or a list that may be \<^verbatim>\<open>None\<close>.\<close>

definition py_not :: "'a list option \<Rightarrow> bool" where
  "py_not v = (case v of None \<Rightarrow> True | Some xs \<Rightarrow> xs = [])"

text \<open>Lines 29 to 45: the file found, or the 404 response.\<close>

definition resolve_path :: "env \<Rightarrow> string \<Rightarrow> response + string" where
  "resolve_path e obj_file_path_input =
     (if \<not> isabs obj_file_path_input then
        let path_from_root = path_join (base_dir e) obj_file_path_input;
            path_from_data_dir = path_join (path_join (base_dir e) ''data'') obj_file_path_input
        in if path_exists e path_from_root then Inr path_from_root
           else if path_exists e path_from_data_dir then Inr path_from_data_dir
           else Inl (ErrorBody (''OBJ file not found at '' @ quoted obj_file_path_input @ '', ''
                       @ quoted path_from_root @ '', or '' @ quoted path_from_data_dir), 404)
      else if path_exists e obj_file_path_input then Inr obj_file_path_input
      else Inl (ErrorBody (''OBJ file not found at absolute path: '' @ obj_file_path_input), 404))"

text \<open>
  The handler. An exception of \<^verbatim>\<open>request.get_json()\<close>, of \<^verbatim>\<open>os.makedirs\<close> or of the
  batch is caught by the outer \<^verbatim>\<open>except\<close> of lines 73 to 75 and answered with 500.
\<close>

definition slice_model_endpoint ::
  "env \<Rightarrow> world \<Rightarrow> json_body outcome \<Rightarrow> response \<times> world" where
  "slice_model_endpoint e w body =
     (case body of
        Raises message \<Rightarrow> ((UnexpectedBody GetJsonError, 500), w)
      | Returns Falsy \<Rightarrow> ((ErrorBody ''Invalid JSON payload'', 400), w)
      | Returns (Object data) \<Rightarrow>
          let obj_file_path_input = req_obj_file_path data;
              locators_data = req_locators data
          in if py_not obj_file_path_input \<or> py_not locators_data
             then ((ErrorBody ''Missing obj_file_path or locators_data'', 400), w)
             else
               case resolve_path e (get_or obj_file_path_input []) of
                 Inl not_found \<Rightarrow> (not_found, w)
               | Inr obj_file_path_actual \<Rightarrow>
                   let output_image_dir =
                         path_join (path_join (base_dir e) ''data'') ''generated_slices''
                   in if makedirs_raises e output_image_dir
                      then ((UnexpectedBody MakedirsError, 500), w)
                      else
                        case process_locators_for_obj e
                               (w\<lparr>made_dirs := made_dirs w @ [output_image_dir]\<rparr>)
                               obj_file_path_actual (get_or locators_data []) output_image_dir of
                          (Inl ex, w) \<Rightarrow> ((UnexpectedBody ex, 500), w)
                        | (Inr (success, results), w) \<Rightarrow>
                            if success
                            then ((CompletedBody
                                     (''Slicing process completed for ''
                                        @ basename obj_file_path_actual @ ''.'')
                                     obj_file_path_actual
                                     (length (get_or locators_data []))
                                     results, 200), w)
                            else ((SlicingErrorsBody obj_file_path_actual results, 500), w))"

text \<open>The response of lines 64 to 71, taken when the batch reports failure.\<close>

definition critical_failure :: "response \<Rightarrow> bool" where
  "critical_failure resp = (case fst resp of SlicingErrorsBody _ _ \<Rightarrow> True | _ \<Rightarrow> False)"

text \<open>
  The condition of the specification for a path that cannot be resolved: it is not an
  existing absolute path, and it exists neither under the base directory nor under its
  \<^verbatim>\<open>data\<close> subdirectory. It is written from the specification's words.
\<close>

definition spec_unresolvable :: "env \<Rightarrow> string \<Rightarrow> bool" where
  "spec_unresolvable e p \<longleftrightarrow>
     \<not> (isabs p \<and> path_exists e p)
     \<and> \<not> path_exists e (path_join (base_dir e) p)
     \<and> \<not> path_exists e (path_join (path_join (base_dir e) ''data'') p)"

section \<open>Example environments\<close>

text \<open>
  A file system with two files under \<^verbatim>\<open>/srv/app/data\<close>: the cube of the test in
  \<^verbatim>\<open>slice_obj.py\<close> and a file that does not load. The cube has eight points; a plane
  with origin at height \<open>z \<le> 1\<close> cuts four points out of it and a plane further up cuts
  nothing; slicing at an origin with negative \<open>x\<close> raises (an injected fault); rendering
  succeeds; the standard output encodes every text.
\<close>

definition cube_path :: string where
  "cube_path = ''/srv/app/data/test_cube.obj''"

definition broken_path :: string where
  "broken_path = ''/srv/app/data/broken.obj''"

definition slices_dir :: string where
  "slices_dir = ''/srv/app/data/generated_slices''"

definition cube_env :: env where
  "cube_env =
     \<lparr>read_mesh = (\<lambda>t p. if p = cube_path then Returns \<lparr>n_points = 8\<rparr>
                          else Raises ''no mesh''),
      slice_mesh = (\<lambda>t m normal origin. case origin of (x, y, z) \<Rightarrow>
                      if x < 0 then Raises ''injected fault''
                      else if z \<le> 1
                      then Returns \<lparr>truthy = True,
                                    points = [(0, 0, z), (1, 0, z), (1, 1, z), (0, 1, z)]\<rparr>
                      else Returns \<lparr>truthy = True, points = []\<rparr>),
      render_fault = (\<lambda>t pd cam path. None),
      stdout_rejects = (\<lambda>s. False),
      randint = (\<lambda>k. 7 * k + 3),
      path_exists = (\<lambda>p. p = cube_path \<or> p = broken_path),
      base_dir = ''/srv/app'',
      makedirs_raises = (\<lambda>d. False)\<rparr>"

text \<open>
  The same, with a standard output that encodes ASCII only, and an id with the byte
  \<open>0xE9\<close> in it.
\<close>

definition ascii_env :: env where
  "ascii_env = cube_env\<lparr>stdout_rejects := list_ex digit7\<rparr>"

definition accented_id :: string where
  "accented_id = ''caf'' @ [CHR 0xE9]"

definition world0 :: world where
  "world0 = \<lparr>draws = 0, calls = [], made_dirs = [], written = []\<rparr>"

definition locator_at :: "string option \<Rightarrow> real \<Rightarrow> real \<Rightarrow> real \<Rightarrow> locator" where
  "locator_at i x y z =
     \<lparr>loc_id = i, loc_x = Some (JFloat x), loc_y = Some (JFloat y), loc_z = Some (JFloat z),
      loc_rx = None, loc_ry = None, loc_rz = None\<rparr>"

text \<open>
  Two locators with an integer angle that has no 64-bit numpy type, and one with the largest
  integer that has one.
\<close>

definition locator_huge_ry :: locator where
  "locator_huge_ry = (locator_at (Some ''a'') 0 0 0)\<lparr>loc_ry := Some (JInt (2 ^ 64))\<rparr>"

definition locator_huge_rx :: locator where
  "locator_huge_rx = (locator_at (Some ''a'') 0 0 0)\<lparr>loc_rx := Some (JInt (2 ^ 64))\<rparr>"

definition locator_large_rx :: locator where
  "locator_large_rx = (locator_at (Some ''a'') 0 0 0)\<lparr>loc_rx := Some (JInt (2 ^ 64 - 1))\<rparr>"

section \<open>Properties of the plane normal\<close>

lemma rotated_normal_components:
  "rotated_normal rx ry =
     (sin (deg2rad ry), - (sin (deg2rad rx) * cos (deg2rad ry)), cos (deg2rad rx) * cos (deg2rad ry))"
  by (simp add: rotated_normal_def matvec_def dot_def rot_mat_y_def rot_mat_x_def)

lemma rot_sq_sum:
  fixes s1 c1 s2 c2 :: real
  assumes "s1\<^sup>2 + c1\<^sup>2 = 1" and "s2\<^sup>2 + c2\<^sup>2 = 1"
  shows "s2 * s2 + (- (s1 * c2)) * (- (s1 * c2)) + (c1 * c2) * (c1 * c2) = 1"
proof -
  have "s2 * s2 + (- (s1 * c2)) * (- (s1 * c2)) + (c1 * c2) * (c1 * c2)
      = s2\<^sup>2 + (s1\<^sup>2 + c1\<^sup>2) * c2\<^sup>2"
    by (simp add: power2_eq_square algebra_simps)
  also have "\<dots> = 1"
    using assms by simp
  finally show ?thesis .
qed

lemma rotated_normal_unit: "linalg_norm (rotated_normal rx ry) = 1"
proof -
  let ?a = "deg2rad rx" and ?b = "deg2rad ry"
  have "linalg_norm (rotated_normal rx ry)
      = sqrt (sin ?b * sin ?b + (- (sin ?a * cos ?b)) * (- (sin ?a * cos ?b))
              + (cos ?a * cos ?b) * (cos ?a * cos ?b))"
    unfolding rotated_normal_components linalg_norm_def by (simp only: prod.case)
  also have "\<dots> = sqrt 1"
    by (rule arg_cong [where f = sqrt], rule rot_sq_sum) simp_all
  finally show ?thesis
    by simp
qed

lemma calculate_plane_normal_components:
  "calculate_plane_normal rx ry rz =
     (sin (deg2rad ry), - (sin (deg2rad rx) * cos (deg2rad ry)), cos (deg2rad rx) * cos (deg2rad ry))"
  by (simp add: calculate_plane_normal_def normalize_or_z_def rotated_normal_unit)
     (simp add: rotated_normal_components vdiv_def)

text \<open>
  C4. The \<open>rz\<close> argument has no effect on the returned normal: the result for
  \<open>(rx, ry, rz)\<close> is the result for \<open>(rx, ry, 0)\<close>, and for zero \<open>rx\<close> and \<open>ry\<close> the
  result is exactly \<open>(0, 0, 1)\<close> whatever \<open>rz\<close> is.
\<close>

theorem C4_rz_has_no_effect:
  "calculate_plane_normal rx ry rz = calculate_plane_normal rx ry 0
   \<and> calculate_plane_normal 0 0 rz = (0, 0, 1)"
  by (simp add: calculate_plane_normal_components deg2rad_def)

theorem C4_rz_has_no_effect_witness:
  "calculate_plane_normal 90 0 45 = (0, - 1, 0) \<and> calculate_plane_normal 0 0 45 = (0, 0, 1)"
proof -
  have "calculate_plane_normal 90 0 0 = (0, - 1, 0)"
    by (simp add: calculate_plane_normal_components deg2rad_def)
  then show ?thesis
    using C4_rz_has_no_effect [of 90 0 45] by simp
qed



text \<open>
  C6. For all \<open>rx\<close> and \<open>ry\<close> (and any \<open>rz\<close>) the returned vector has magnitude 1; the
  function normalises the rotated vector with \<open>normalize_or_z\<close>, which returns the
  fallback \<open>(0, 0, 1)\<close> for a vector of magnitude zero.
\<close>

theorem C6_unit_length:
  "linalg_norm (calculate_plane_normal rx ry rz) = 1
   \<and> calculate_plane_normal rx ry rz = normalize_or_z (rotated_normal rx ry)
   \<and> (linalg_norm v = 0 \<longrightarrow> normalize_or_z v = (0, 0, 1))"
proof -
  have "calculate_plane_normal rx ry rz = rotated_normal rx ry"
    by (simp add: calculate_plane_normal_components rotated_normal_components)
  then have "linalg_norm (calculate_plane_normal rx ry rz) = 1"
    by (simp add: rotated_normal_unit)
  then show ?thesis
    by (simp add: calculate_plane_normal_def normalize_or_z_def)
qed

theorem C6_unit_length_witness:
  "linalg_norm (calculate_plane_normal 90 0 0) = 1
   \<and> linalg_norm (0, 0, 0) = 0 \<and> normalize_or_z (0, 0, 0) = (0, 0, 1)"
proof -
  have h: "linalg_norm (0, 0, 0) = 0"
    by (simp add: linalg_norm_def)
  show ?thesis
    using h C6_unit_length [of 90 0 0 "(0, 0, 0)"] by blast
qed

section \<open>Properties of the camera up vector\<close>









section \<open>Properties of the batch processor\<close>

lemma create_slice_calls:
  "calls (snd (create_slice_image_pyvista e w p origin normal ident radius out)) = calls w @ [ident]"
  by (simp add: create_slice_image_pyvista_def outer_except_def Let_def
      split: outcome.splits option.splits stage.splits prod.splits)

lemma create_slice_draws:
  "draws (snd (create_slice_image_pyvista e w p origin normal ident radius out)) = draws w"
  by (simp add: create_slice_image_pyvista_def outer_except_def Let_def
      split: outcome.splits option.splits stage.splits prod.splits)

lemma create_slice_tick:
  "length (calls w1) = length (calls w2) \<Longrightarrow>
   fst (create_slice_image_pyvista e w1 p origin normal ident radius out)
     = fst (create_slice_image_pyvista e w2 p origin normal ident radius out)"
  by (simp add: create_slice_image_pyvista_def outer_except_def Let_def
      split: outcome.splits option.splits stage.splits prod.splits)

lemma create_slice_load_fails:
  "read_mesh e (length (calls w)) p = Raises message
     \<or> (\<exists>m. read_mesh e (length (calls w)) p = Returns m \<and> n_points m = 0) \<Longrightarrow>
   fst (create_slice_image_pyvista e w p origin normal ident radius out) \<noteq> Inr True"
  by (auto simp add: create_slice_image_pyvista_def Let_def)

lemma create_slice_empty:
  "\<not> stdout_rejects e ident \<Longrightarrow> read_mesh e (length (calls w)) p = Returns m \<Longrightarrow>
   0 < n_points m \<Longrightarrow> slice_mesh e (length (calls w)) m normal origin = Returns pd \<Longrightarrow>
   points pd = [] \<Longrightarrow>
   create_slice_image_pyvista e w p origin normal ident radius out
     = (Inr True, w\<lparr>calls := calls w @ [ident]\<rparr>)"
  by (simp add: create_slice_image_pyvista_def Let_def)

lemma create_slice_unprintable:
  "stdout_rejects e ident \<Longrightarrow>
   create_slice_image_pyvista e w p origin normal ident radius out
     = (Inl UnicodeEncodeError, w\<lparr>calls := calls w @ [ident]\<rparr>)"
  by (simp add: create_slice_image_pyvista_def Let_def)

lemma create_slice_returns:
  "\<forall>s. \<not> stdout_rejects e s \<Longrightarrow>
   \<exists>b. fst (create_slice_image_pyvista e w p origin normal ident radius out) = Inr b"
  by (auto simp add: create_slice_image_pyvista_def outer_except_def Let_def
      split: outcome.splits option.splits stage.splits prod.splits)

text \<open>What a returning loop body has done.\<close>

lemma process_locator_returns:
  assumes "process_locator e p out loc w = (Inr r, w')"
  shows "\<exists>normal b.
     calculate_plane_normal_call (get_or (loc_rx loc) (JFloat 0)) (get_or (loc_ry loc) (JFloat 0))
       (get_or (loc_rz loc) (JFloat 0)) = Inr normal
     \<and> create_slice_image_pyvista e (w\<lparr>draws := draws w + 1\<rparr>) p
         (num_value (get_or (loc_x loc) (JFloat 0)), num_value (get_or (loc_y loc) (JFloat 0)),
          num_value (get_or (loc_z loc) (JFloat 0)))
         normal
         (get_or (loc_id loc) (''unknown_loc_'' @ str_nat (randint e (draws w) mod 1000)))
         200 out = (Inr b, w')
     \<and> r = (if b
            then success_entry out
                   (get_or (loc_id loc) (''unknown_loc_'' @ str_nat (randint e (draws w) mod 1000)))
            else error_entry
                   (get_or (loc_id loc) (''unknown_loc_'' @ str_nat (randint e (draws w) mod 1000))))"
  using assms
  by (auto simp add: process_locator_def Let_def split: sum.splits prod.splits bool.splits)

lemma process_locator_draws:
  assumes "process_locator e p out loc w = (Inr r, w')"
  shows "draws w' = draws w + 1"
proof -
  from process_locator_returns [OF assms] obtain normal b where
    "create_slice_image_pyvista e (w\<lparr>draws := draws w + 1\<rparr>) p
         (num_value (get_or (loc_x loc) (JFloat 0)), num_value (get_or (loc_y loc) (JFloat 0)),
          num_value (get_or (loc_z loc) (JFloat 0)))
         normal
         (get_or (loc_id loc) (''unknown_loc_'' @ str_nat (randint e (draws w) mod 1000)))
         200 out = (Inr b, w')"
    by blast
  then have "w' = snd (create_slice_image_pyvista e (w\<lparr>draws := draws w + 1\<rparr>) p
         (num_value (get_or (loc_x loc) (JFloat 0)), num_value (get_or (loc_y loc) (JFloat 0)),
          num_value (get_or (loc_z loc) (JFloat 0)))
         normal
         (get_or (loc_id loc) (''unknown_loc_'' @ str_nat (randint e (draws w) mod 1000)))
         200 out)"
    by simp
  then show ?thesis
    by (simp add: create_slice_draws)
qed

lemma process_locator_calls:
  assumes "process_locator e p out loc w = (Inr r, w')"
  shows "length (calls w') = length (calls w) + 1"
proof -
  from process_locator_returns [OF assms] obtain normal b where
    "create_slice_image_pyvista e (w\<lparr>draws := draws w + 1\<rparr>) p
         (num_value (get_or (loc_x loc) (JFloat 0)), num_value (get_or (loc_y loc) (JFloat 0)),
          num_value (get_or (loc_z loc) (JFloat 0)))
         normal
         (get_or (loc_id loc) (''unknown_loc_'' @ str_nat (randint e (draws w) mod 1000)))
         200 out = (Inr b, w')"
    by blast
  then have "w' = snd (create_slice_image_pyvista e (w\<lparr>draws := draws w + 1\<rparr>) p
         (num_value (get_or (loc_x loc) (JFloat 0)), num_value (get_or (loc_y loc) (JFloat 0)),
          num_value (get_or (loc_z loc) (JFloat 0)))
         normal
         (get_or (loc_id loc) (''unknown_loc_'' @ str_nat (randint e (draws w) mod 1000)))
         200 out)"
    by simp
  then show ?thesis
    by (simp add: create_slice_calls)
qed

lemma process_locator_total:
  assumes "\<forall>s. \<not> stdout_rejects e s"
    and "\<not> np_rejects (get_or (loc_rx loc) (JFloat 0))"
    and "\<not> np_rejects (get_or (loc_ry loc) (JFloat 0))"
  shows "\<exists>r w'. process_locator e p out loc w = (Inr r, w')"
proof -
  let ?w = "w\<lparr>draws := draws w + 1\<rparr>"
  let ?ident = "get_or (loc_id loc) (''unknown_loc_'' @ str_nat (randint e (draws w) mod 1000))"
  let ?origin = "(num_value (get_or (loc_x loc) (JFloat 0)), num_value (get_or (loc_y loc) (JFloat 0)),
          num_value (get_or (loc_z loc) (JFloat 0)))"
  let ?normal = "calculate_plane_normal (num_value (get_or (loc_rx loc) (JFloat 0)))
      (num_value (get_or (loc_ry loc) (JFloat 0))) (num_value (get_or (loc_rz loc) (JFloat 0)))"
  from create_slice_returns [OF assms(1), of ?w p ?origin ?normal ?ident 200 out]
  obtain b w' where "create_slice_image_pyvista e ?w p ?origin ?normal ?ident 200 out = (Inr b, w')"
    by (metis prod.collapse)
  with assms(2,3) show ?thesis
    by (cases b) (simp_all add: process_locator_def calculate_plane_normal_call_def Let_def)
qed

text \<open>The loop with an accumulator, in terms of the loop that starts empty.\<close>

lemma loop_acc:
  "locators_loop e p out locs acc w =
     (case locators_loop e p out locs [] w of
        (Inl ex, w') \<Rightarrow> (Inl ex, w')
      | (Inr rs, w') \<Rightarrow> (Inr (acc @ rs), w'))"
proof (induction locs arbitrary: acc w)
  case Nil
  show ?case by simp
next
  case (Cons loc rest)
  show ?case
  proof (cases "process_locator e p out loc w")
    case (Pair res w1)
    show ?thesis
    proof (cases res)
      case (Inl ex)
      with Pair show ?thesis by simp
    next
      case (Inr r)
      with Pair Cons.IH [of "acc @ [r]" w1] Cons.IH [of "[r]" w1] show ?thesis
        by (simp split: prod.splits sum.splits)
    qed
  qed
qed

lemma loop_Cons_returns:
  assumes "locators_loop e p out (loc # rest) [] w = (Inr rs, w')"
  shows "\<exists>r w1 rs'. process_locator e p out loc w = (Inr r, w1)
     \<and> locators_loop e p out rest [] w1 = (Inr rs', w') \<and> rs = r # rs'"
proof (cases "process_locator e p out loc w")
  case (Pair res w1)
  show ?thesis
  proof (cases res)
    case (Inl ex)
    with Pair assms show ?thesis by simp
  next
    case (Inr r)
    with Pair assms have "locators_loop e p out rest [r] w1 = (Inr rs, w')"
      by simp
    with loop_acc [of e p out rest "[r]" w1]
    obtain rs' where "locators_loop e p out rest [] w1 = (Inr rs', w')" "rs = r # rs'"
      by (auto split: prod.splits sum.splits)
    with Pair Inr show ?thesis
      by simp
  qed
qed

lemma loop_returns_length:
  "locators_loop e p out locs [] w = (Inr rs, w') \<Longrightarrow> length rs = length locs"
proof (induction locs arbitrary: w rs)
  case Nil
  then show ?case by simp
next
  case (Cons loc rest)
  from loop_Cons_returns [OF Cons.prems] obtain r w1 rs' where
    "locators_loop e p out rest [] w1 = (Inr rs', w')" "rs = r # rs'"
    by blast
  with Cons.IH [of w1 rs'] show ?case
    by simp
qed

lemma loop_returns_nth:
  "locators_loop e p out locs [] w = (Inr rs, w') \<Longrightarrow> i < length locs \<Longrightarrow>
   \<exists>wi wi'. process_locator e p out (locs ! i) wi = (Inr (rs ! i), wi')
     \<and> draws wi = draws w + i \<and> length (calls wi) = length (calls w) + i"
proof (induction locs arbitrary: w rs i)
  case Nil
  then show ?case by simp
next
  case (Cons loc rest)
  from loop_Cons_returns [OF Cons.prems(1)] obtain r w1 rs' where
    step: "process_locator e p out loc w = (Inr r, w1)"
    and rest: "locators_loop e p out rest [] w1 = (Inr rs', w')"
    and rs: "rs = r # rs'"
    by blast
  show ?case
  proof (cases i)
    case 0
    with step rs show ?thesis
      by auto
  next
    case (Suc j)
    with Cons.prems(2) have "j < length rest"
      by simp
    from Cons.IH [OF rest this] obtain wi wi' where
      "process_locator e p out (rest ! j) wi = (Inr (rs' ! j), wi')"
      "draws wi = draws w1 + j" "length (calls wi) = length (calls w1) + j"
      by blast
    with Suc rs process_locator_draws [OF step] process_locator_calls [OF step] show ?thesis
      by auto
  qed
qed

lemma loop_total:
  assumes "\<forall>s. \<not> stdout_rejects e s"
  shows "(\<forall>loc \<in> set locs. \<not> np_rejects (get_or (loc_rx loc) (JFloat 0))
            \<and> \<not> np_rejects (get_or (loc_ry loc) (JFloat 0))) \<Longrightarrow>
         \<exists>rs w'. locators_loop e p out locs [] w = (Inr rs, w')"
proof (induction locs arbitrary: w)
  case Nil
  show ?case by simp
next
  case (Cons loc rest)
  from Cons.prems process_locator_total [OF assms, of loc p out w]
  obtain r w1 where step: "process_locator e p out loc w = (Inr r, w1)"
    by auto
  from Cons.prems Cons.IH [of w1] obtain rs w' where
    "locators_loop e p out rest [] w1 = (Inr rs, w')"
    by auto
  with step loop_acc [of e p out rest "[r]" w1] show ?case
    by simp
qed

lemma create_slice_empty_returned:
  assumes "read_mesh e (length (calls w)) p = Returns m" and "0 < n_points m"
    and "slice_mesh e (length (calls w)) m normal origin = Returns pd" and "points pd = []"
    and "fst (create_slice_image_pyvista e w p origin normal ident radius out) = Inr b"
  shows "b = True"
proof (cases "stdout_rejects e ident")
  case True
  from create_slice_unprintable [OF True] assms(5) show ?thesis
    by simp
next
  case False
  from create_slice_empty [OF False assms(1-4)] assms(5) show ?thesis
    by simp
qed

lemma create_slice_load_fails_returned:
  assumes "read_mesh e (length (calls w)) p = Raises message
     \<or> (\<exists>m. read_mesh e (length (calls w)) p = Returns m \<and> n_points m = 0)"
    and "fst (create_slice_image_pyvista e w p origin normal ident radius out) = Inr b"
  shows "b = False"
  using create_slice_load_fails [OF assms(1), of origin normal ident radius out] assms(2)
  by auto

lemma entry_fields:
  "map_of (success_entry out ident) ''status'' = Some ''success''"
  "map_of (success_entry out ident) ''id'' = Some ident"
  "map_of (success_entry out ident) ''image_path'' = Some (path_join out (ident @ ''.png''))"
  "map_of (error_entry ident) ''status'' = Some ''error''"
  "map_of (error_entry ident) ''id'' = Some ident"
  "map_of (error_entry ident) ''message''
     = Some (''Failed to create slice image for '' @ ident @ '' using PyVista'')"
  by (simp_all add: success_entry_def error_entry_def)

lemma batch_returns:
  assumes "process_locators_for_obj e w p locs out = (Inr (ok, rs), w')"
  shows "ok = True" and "\<not> stdout_rejects e p"
    and "locators_loop e p out locs [] w = (Inr rs, w')"
  using assms
  by (auto simp add: process_locators_for_obj_def split: if_splits prod.splits sum.splits)

lemma batch_never_false: "process_locators_for_obj e w p locs out \<noteq> (Inr (False, rs), w')"
  using batch_returns(1) [of e w p locs out False rs w'] by auto

lemma batch_total:
  assumes "\<forall>s. \<not> stdout_rejects e s"
    and "\<forall>loc \<in> set locs. \<not> np_rejects (get_or (loc_rx loc) (JFloat 0))
            \<and> \<not> np_rejects (get_or (loc_ry loc) (JFloat 0))"
  shows "\<exists>rs w'. process_locators_for_obj e w p locs out = (Inr (True, rs), w')"
proof -
  from loop_total [OF assms] obtain rs w' where
    "locators_loop e p out locs [] w = (Inr rs, w')"
    by blast
  with assms(1) show ?thesis
    by (simp add: process_locators_for_obj_def)
qed

text \<open>
  The entry at index i of a returned batch: the plane normal was computed, the call of
  \<open>create_slice_image_pyvista\<close> was the one with i calls before it, and its boolean
  decides between the two dictionaries.
\<close>

lemma batch_entry:
  assumes "process_locators_for_obj e w p locs out = (Inr (ok, rs), w')" and "i < length locs"
  shows "\<exists>normal b wi.
     calculate_plane_normal_call (get_or (loc_rx (locs ! i)) (JFloat 0))
       (get_or (loc_ry (locs ! i)) (JFloat 0)) (get_or (loc_rz (locs ! i)) (JFloat 0)) = Inr normal
     \<and> length (calls wi) = length (calls w) + i
     \<and> fst (create_slice_image_pyvista e wi p
         (num_value (get_or (loc_x (locs ! i)) (JFloat 0)),
          num_value (get_or (loc_y (locs ! i)) (JFloat 0)),
          num_value (get_or (loc_z (locs ! i)) (JFloat 0)))
         normal
         (get_or (loc_id (locs ! i)) (''unknown_loc_'' @ str_nat (randint e (draws w + i) mod 1000)))
         200 out) = Inr b
     \<and> rs ! i = (if b
          then success_entry out
            (get_or (loc_id (locs ! i)) (''unknown_loc_'' @ str_nat (randint e (draws w + i) mod 1000)))
          else error_entry
            (get_or (loc_id (locs ! i)) (''unknown_loc_'' @ str_nat (randint e (draws w + i) mod 1000))))"
proof -
  from loop_returns_nth [OF batch_returns(3) [OF assms(1)] assms(2)] obtain wi wi' where
    step: "process_locator e p out (locs ! i) wi = (Inr (rs ! i), wi')"
    and d: "draws wi = draws w + i" and c: "length (calls wi) = length (calls w) + i"
    by blast
  let ?ident = "get_or (loc_id (locs ! i))
      (''unknown_loc_'' @ str_nat (randint e (draws w + i) mod 1000))"
  let ?origin = "(num_value (get_or (loc_x (locs ! i)) (JFloat 0)),
          num_value (get_or (loc_y (locs ! i)) (JFloat 0)),
          num_value (get_or (loc_z (locs ! i)) (JFloat 0)))"
  from process_locator_returns [OF step] obtain normal b where
    n: "calculate_plane_normal_call (get_or (loc_rx (locs ! i)) (JFloat 0))
       (get_or (loc_ry (locs ! i)) (JFloat 0)) (get_or (loc_rz (locs ! i)) (JFloat 0)) = Inr normal"
    and run: "create_slice_image_pyvista e (wi\<lparr>draws := draws wi + 1\<rparr>) p ?origin normal
         ?ident 200 out = (Inr b, wi')"
    and r: "rs ! i = (if b then success_entry out ?ident else error_entry ?ident)"
    unfolding d by blast
  have c': "length (calls (wi\<lparr>draws := draws wi + 1\<rparr>)) = length (calls w) + i"
    using c by simp
  from run have b: "fst (create_slice_image_pyvista e (wi\<lparr>draws := draws wi + 1\<rparr>) p ?origin
         normal ?ident 200 out) = Inr b"
    by simp
  from n c' b r show ?thesis
    by blast
qed

text \<open>
  A mesh that fails to load at the locator of index i gives the error dictionary at index
  i of a returned batch.
\<close>

lemma batch_load_failure_entry:
  assumes "process_locators_for_obj e w p locs out = (Inr (ok, rs), w')" and "i < length locs"
    and "read_mesh e (length (calls w) + i) p = Raises message
       \<or> (\<exists>m. read_mesh e (length (calls w) + i) p = Returns m \<and> n_points m = 0)"
  shows "rs ! i = error_entry
      (get_or (loc_id (locs ! i)) (''unknown_loc_'' @ str_nat (randint e (draws w + i) mod 1000)))"
proof -
  from batch_entry [OF assms(1,2)] obtain normal b wi where
    c: "length (calls wi) = length (calls w) + i"
    and run: "fst (create_slice_image_pyvista e wi p
         (num_value (get_or (loc_x (locs ! i)) (JFloat 0)),
          num_value (get_or (loc_y (locs ! i)) (JFloat 0)),
          num_value (get_or (loc_z (locs ! i)) (JFloat 0)))
         normal
         (get_or (loc_id (locs ! i)) (''unknown_loc_'' @ str_nat (randint e (draws w + i) mod 1000)))
         200 out) = Inr b"
    and r: "rs ! i = (if b
          then success_entry out
            (get_or (loc_id (locs ! i)) (''unknown_loc_'' @ str_nat (randint e (draws w + i) mod 1000)))
          else error_entry
            (get_or (loc_id (locs ! i)) (''unknown_loc_'' @ str_nat (randint e (draws w + i) mod 1000))))"
    by blast
  from assms(3) have "read_mesh e (length (calls wi)) p = Raises message
       \<or> (\<exists>m. read_mesh e (length (calls wi)) p = Returns m \<and> n_points m = 0)"
    by (simp only: c)
  from create_slice_load_fails_returned [OF this run] r show ?thesis
    by simp
qed

lemma resolve_not_critical: "resolve_path e q = Inl r \<Longrightarrow> \<not> critical_failure r"
  by (auto simp add: resolve_path_def critical_failure_def Let_def split: if_splits)

lemma handler_not_critical: "\<not> critical_failure (fst (slice_model_endpoint e w body))"
proof (cases body)
  case (Raises message)
  then show ?thesis by (simp add: slice_model_endpoint_def critical_failure_def)
next
  case (Returns data)
  show ?thesis
  proof (cases data)
    case Falsy
    with Returns show ?thesis by (simp add: slice_model_endpoint_def critical_failure_def)
  next
    case (Object d)
    let ?dir = "path_join (path_join (base_dir e) ''data'') ''generated_slices''"
    show ?thesis
    proof (cases "resolve_path e (get_or (req_obj_file_path d) [])")
      case (Inl r)
      with resolve_not_critical [OF Inl] show ?thesis
        by (simp add: Returns Object slice_model_endpoint_def critical_failure_def Let_def)
    next
      case (Inr actual)
      obtain res w' where run: "process_locators_for_obj e
          (w\<lparr>made_dirs := made_dirs w @ [?dir]\<rparr>) actual (get_or (req_locators d) []) ?dir
          = (res, w')"
        by (cases "process_locators_for_obj e
          (w\<lparr>made_dirs := made_dirs w @ [?dir]\<rparr>) actual (get_or (req_locators d) []) ?dir")
      show ?thesis
      proof (cases res)
        case (Inl ex)
        with run Inr show ?thesis
          by (simp add: Returns Object slice_model_endpoint_def critical_failure_def Let_def)
      next
        case (Inr okrs)
        obtain ok rs where okrs: "okrs = (ok, rs)"
          by (cases okrs)
        from run Inr okrs batch_returns(1) [of e _ actual _ ?dir ok rs w'] have "ok = True"
          by simp
        with run Inr okrs \<open>resolve_path e (get_or (req_obj_file_path d) []) = Inr actual\<close>
        show ?thesis
          by (simp add: Returns Object slice_model_endpoint_def critical_failure_def Let_def)
      qed
    qed
  qed
qed

text \<open>
  C1. The claim fails on the code at a locator whose \<open>ry\<close> is the integer \<open>2^64\<close>:
  \<^verbatim>\<open>np.deg2rad\<close> raises in \<open>calculate_plane_normal\<close>, outside every \<^verbatim>\<open>try\<close>, so the
  batch returns nothing, for a mesh that loads, and the handler answers 500 through its
  outer \<^verbatim>\<open>except\<close>.
\<close>

theorem C1_batch_raises:
  "process_locators_for_obj cube_env world0 cube_path [locator_huge_ry] slices_dir
     = (Inl TypeError, world0\<lparr>draws := 1\<rparr>)
   \<and> fst (slice_model_endpoint cube_env world0
        (Returns (Object \<lparr>req_obj_file_path = Some ''test_cube.obj'',
                           req_locators = Some [locator_huge_ry]\<rparr>)))
     = (UnexpectedBody TypeError, 500)"
proof -
  have run: "process_locators_for_obj cube_env w cube_path [locator_huge_ry] slices_dir
     = (Inl TypeError, w\<lparr>draws := draws w + 1\<rparr>)" for w
    by (simp add: process_locators_for_obj_def process_locator_def calculate_plane_normal_call_def
        np_rejects_def cube_env_def locator_huge_ry_def locator_at_def get_or_def Let_def)
  have resolved: "resolve_path cube_env ''test_cube.obj'' = Inr cube_path"
    by (simp add: resolve_path_def cube_env_def path_join_def isabs_def cube_path_def broken_path_def)
  have dir: "path_join (path_join (base_dir cube_env) ''data'') ''generated_slices'' = slices_dir"
    by (simp add: cube_env_def path_join_def isabs_def slices_dir_def)
  have quiet: "\<not> makedirs_raises cube_env slices_dir"
    by (simp add: cube_env_def)
  show ?thesis
    by (simp add: run slice_model_endpoint_def py_not_def get_or_def resolved dir quiet world0_def)
qed

text \<open>
  C2. The claim fails on the code where an exception is raised outside the \<^verbatim>\<open>try\<close> of
  \<open>create_slice_image_pyvista\<close>. With \<open>rx = 2^64\<close> in the first of two locators the
  batch raises \<^verbatim>\<open>TypeError\<close> and the second locator gets no result; with an id that the
  standard output cannot encode it raises \<^verbatim>\<open>UnicodeEncodeError\<close> likewise. With
  \<open>rx = 2^64 - 1\<close> the same batch returns its two results.
\<close>

theorem C2_exception_aborts_batch:
  "process_locators_for_obj cube_env world0 cube_path
       [locator_huge_rx, locator_at (Some ''b'') 0 0 0] slices_dir
     = (Inl TypeError, world0\<lparr>draws := 1\<rparr>)
   \<and> process_locators_for_obj ascii_env world0 cube_path
       [locator_at (Some accented_id) 0 0 0, locator_at (Some ''b'') 0 0 0] slices_dir
     = (Inl UnicodeEncodeError, world0\<lparr>draws := 1, calls := [accented_id]\<rparr>)
   \<and> fst (process_locators_for_obj cube_env world0 cube_path
       [locator_large_rx, locator_at (Some ''b'') 0 0 0] slices_dir)
     = Inr (True, [success_entry slices_dir ''a'', success_entry slices_dir ''b''])"
  by (simp add: process_locators_for_obj_def process_locator_def calculate_plane_normal_call_def
      create_slice_image_pyvista_def outer_except_def np_rejects_def num_value_def cube_env_def
      ascii_env_def accented_id_def world0_def locator_huge_rx_def locator_large_rx_def locator_at_def get_or_def
      Let_def cube_path_def)

text \<open>
  C3. When the slice is reached (the id was printed, the mesh loaded with points) and has
  zero points, \<open>create_slice_image_pyvista\<close> returns \<open>True\<close> and changes nothing but
  the record of its call: no directory is made and no image is written. The loop body
  then yields an entry with status \<open>success\<close> for that locator, and in every returned
  batch the entry of a locator whose slice had zero points has status \<open>success\<close>, the id
  of the locator and its image path.
\<close>

theorem C3_empty_slice_is_success:
  "(\<not> stdout_rejects e ident
      \<and> read_mesh e (length (calls w)) p = Returns m \<and> 0 < n_points m
      \<and> slice_mesh e (length (calls w)) m normal origin = Returns pd \<and> length (points pd) = 0 \<longrightarrow>
      create_slice_image_pyvista e w p origin normal ident radius out
        = (Inr True, w\<lparr>calls := calls w @ [ident]\<rparr>))
   \<and> (\<not> stdout_rejects e (get_or (loc_id loc) (''unknown_loc_'' @ str_nat (randint e (draws w) mod 1000)))
      \<and> calculate_plane_normal_call (get_or (loc_rx loc) (JFloat 0)) (get_or (loc_ry loc) (JFloat 0))
           (get_or (loc_rz loc) (JFloat 0)) = Inr normal
      \<and> read_mesh e (length (calls w)) p = Returns m \<and> 0 < n_points m
      \<and> slice_mesh e (length (calls w)) m normal
           (num_value (get_or (loc_x loc) (JFloat 0)), num_value (get_or (loc_y loc) (JFloat 0)),
            num_value (get_or (loc_z loc) (JFloat 0))) = Returns pd
      \<and> length (points pd) = 0 \<longrightarrow>
      (\<exists>r w1. process_locator e p out loc w = (Inr r, w1)
         \<and> map_of r ''status'' = Some ''success''
         \<and> written w1 = written w \<and> made_dirs w1 = made_dirs w))
   \<and> (process_locators_for_obj e w p locs out = (Inr (ok, rs), w') \<and> i < length locs
      \<and> calculate_plane_normal_call (get_or (loc_rx (locs ! i)) (JFloat 0))
           (get_or (loc_ry (locs ! i)) (JFloat 0)) (get_or (loc_rz (locs ! i)) (JFloat 0)) = Inr normal
      \<and> read_mesh e (length (calls w) + i) p = Returns m \<and> 0 < n_points m
      \<and> slice_mesh e (length (calls w) + i) m normal
           (num_value (get_or (loc_x (locs ! i)) (JFloat 0)),
            num_value (get_or (loc_y (locs ! i)) (JFloat 0)),
            num_value (get_or (loc_z (locs ! i)) (JFloat 0))) = Returns pd
      \<and> length (points pd) = 0 \<longrightarrow>
      map_of (rs ! i) ''status'' = Some ''success''
      \<and> map_of (rs ! i) ''id''
          = Some (get_or (loc_id (locs ! i))
                    (''unknown_loc_'' @ str_nat (randint e (draws w + i) mod 1000)))
      \<and> map_of (rs ! i) ''image_path''
          = Some (path_join out
                    (get_or (loc_id (locs ! i))
                       (''unknown_loc_'' @ str_nat (randint e (draws w + i) mod 1000)) @ ''.png'')))"
proof (intro conjI impI)
  assume "\<not> stdout_rejects e ident
      \<and> read_mesh e (length (calls w)) p = Returns m \<and> 0 < n_points m
      \<and> slice_mesh e (length (calls w)) m normal origin = Returns pd \<and> length (points pd) = 0"
  then show "create_slice_image_pyvista e w p origin normal ident radius out
        = (Inr True, w\<lparr>calls := calls w @ [ident]\<rparr>)"
    by (simp add: create_slice_empty)
next
  let ?ident = "get_or (loc_id loc) (''unknown_loc_'' @ str_nat (randint e (draws w) mod 1000))"
  let ?origin = "(num_value (get_or (loc_x loc) (JFloat 0)), num_value (get_or (loc_y loc) (JFloat 0)),
            num_value (get_or (loc_z loc) (JFloat 0)))"
  let ?w1 = "w\<lparr>draws := draws w + 1\<rparr>"
  assume a: "\<not> stdout_rejects e ?ident
      \<and> calculate_plane_normal_call (get_or (loc_rx loc) (JFloat 0)) (get_or (loc_ry loc) (JFloat 0))
           (get_or (loc_rz loc) (JFloat 0)) = Inr normal
      \<and> read_mesh e (length (calls w)) p = Returns m \<and> 0 < n_points m
      \<and> slice_mesh e (length (calls w)) m normal ?origin = Returns pd
      \<and> length (points pd) = 0"
  then have "\<not> stdout_rejects e ?ident" "read_mesh e (length (calls ?w1)) p = Returns m"
    "0 < n_points m" "slice_mesh e (length (calls ?w1)) m normal ?origin = Returns pd"
    "points pd = []"
    by simp_all
  from create_slice_empty [OF this, of 200 out] a
  have "process_locator e p out loc w
      = (Inr (success_entry out ?ident), ?w1\<lparr>calls := calls ?w1 @ [?ident]\<rparr>)"
    by (simp add: process_locator_def Let_def)
  then show "\<exists>r w1. process_locator e p out loc w = (Inr r, w1)
         \<and> map_of r ''status'' = Some ''success''
         \<and> written w1 = written w \<and> made_dirs w1 = made_dirs w"
    by (simp add: entry_fields)
next
  let ?ident = "get_or (loc_id (locs ! i))
      (''unknown_loc_'' @ str_nat (randint e (draws w + i) mod 1000))"
  let ?origin = "(num_value (get_or (loc_x (locs ! i)) (JFloat 0)),
            num_value (get_or (loc_y (locs ! i)) (JFloat 0)),
            num_value (get_or (loc_z (locs ! i)) (JFloat 0)))"
  assume a: "process_locators_for_obj e w p locs out = (Inr (ok, rs), w') \<and> i < length locs
      \<and> calculate_plane_normal_call (get_or (loc_rx (locs ! i)) (JFloat 0))
           (get_or (loc_ry (locs ! i)) (JFloat 0)) (get_or (loc_rz (locs ! i)) (JFloat 0)) = Inr normal
      \<and> read_mesh e (length (calls w) + i) p = Returns m \<and> 0 < n_points m
      \<and> slice_mesh e (length (calls w) + i) m normal ?origin = Returns pd
      \<and> length (points pd) = 0"
  then have run: "process_locators_for_obj e w p locs out = (Inr (ok, rs), w')"
    and i: "i < length locs"
    by simp_all
  from batch_entry [OF run i] a obtain b wi where
    c: "length (calls wi) = length (calls w) + i"
    and call: "fst (create_slice_image_pyvista e wi p ?origin normal ?ident 200 out) = Inr b"
    and r: "rs ! i = (if b then success_entry out ?ident else error_entry ?ident)"
    by auto
  from a have "read_mesh e (length (calls wi)) p = Returns m" "0 < n_points m"
    "slice_mesh e (length (calls wi)) m normal ?origin = Returns pd" "points pd = []"
    by (simp_all only: c length_0_conv)
  from create_slice_empty_returned [OF this call] r have "rs ! i = success_entry out ?ident"
    by simp
  then show "map_of (rs ! i) ''status'' = Some ''success''"
    and "map_of (rs ! i) ''id'' = Some ?ident"
    and "map_of (rs ! i) ''image_path'' = Some (path_join out (?ident @ ''.png''))"
    by (simp_all add: entry_fields)
qed

theorem C3_empty_slice_is_success_witness:
  "\<not> stdout_rejects cube_env ''far''
   \<and> read_mesh cube_env (length (calls world0)) cube_path = Returns \<lparr>n_points = 8\<rparr>
   \<and> slice_mesh cube_env (length (calls world0)) \<lparr>n_points = 8\<rparr> (0, 0, 1) (0, 0, 500)
        = Returns \<lparr>truthy = True, points = []\<rparr>
   \<and> create_slice_image_pyvista cube_env world0 cube_path (0, 0, 500) (0, 0, 1) ''far'' 200 slices_dir
        = (Inr True, world0\<lparr>calls := [''far'']\<rparr>)
   \<and> process_locators_for_obj cube_env world0 cube_path
        [locator_at (Some ''near'') 0 0 0, locator_at (Some ''far'') 0 0 500] slices_dir
      = (Inr (True, [success_entry slices_dir ''near'', success_entry slices_dir ''far'']),
         world0\<lparr>draws := 2, calls := [''near'', ''far''], made_dirs := [slices_dir],
                 written := [path_join slices_dir ''near.png'']\<rparr>)
   \<and> map_of (success_entry slices_dir ''far'') ''status'' = Some ''success''"
proof -
  let ?locs = "[locator_at (Some ''near'') 0 0 0, locator_at (Some ''far'') 0 0 500]"
  have h0: "\<not> stdout_rejects cube_env ''far''"
    by (simp add: cube_env_def)
  have h1: "read_mesh cube_env (length (calls world0)) cube_path = Returns \<lparr>n_points = 8\<rparr>"
    "read_mesh cube_env (length (calls world0) + 1) cube_path = Returns \<lparr>n_points = 8\<rparr>"
    by (simp_all add: cube_env_def)
  have h2: "slice_mesh cube_env (length (calls world0)) \<lparr>n_points = 8\<rparr> (0, 0, 1) (0, 0, 500)
        = Returns \<lparr>truthy = True, points = []\<rparr>"
    "slice_mesh cube_env (length (calls world0) + 1) \<lparr>n_points = 8\<rparr> v (0, 0, 500)
        = Returns \<lparr>truthy = True, points = []\<rparr>" for v
    by (simp_all add: cube_env_def)
  have run: "process_locators_for_obj cube_env world0 cube_path ?locs slices_dir
      = (Inr (True, [success_entry slices_dir ''near'', success_entry slices_dir ''far'']),
         world0\<lparr>draws := 2, calls := [''near'', ''far''], made_dirs := [slices_dir],
                 written := [path_join slices_dir ''near.png'']\<rparr>)"
    by (simp add: process_locators_for_obj_def process_locator_def calculate_plane_normal_call_def
      create_slice_image_pyvista_def outer_except_def np_rejects_def num_value_def cube_env_def
      world0_def locator_at_def get_or_def Let_def cube_path_def)
  show ?thesis
    using h0 h1 h2 run
      C3_empty_slice_is_success [of cube_env "''far''" world0 cube_path "\<lparr>n_points = 8\<rparr>"
        "(0, 0, 1)" "(0, 0, 500)" "\<lparr>truthy = True, points = []\<rparr>" 200 slices_dir
        "locator_at (Some ''far'') 0 0 500" ?locs True
        "[success_entry slices_dir ''near'', success_entry slices_dir ''far'']"
        "world0\<lparr>draws := 2, calls := [''near'', ''far''], made_dirs := [slices_dir],
                 written := [path_join slices_dir ''near.png'']\<rparr>" 1]
    by (simp add: world0_def entry_fields)
qed

text \<open>
  C9. Every result with status \<open>success\<close> in a returned results list carries the image
  path made of the output directory and the id of that result followed by \<open>.png\<close>. This
  includes the empty cross-section: a batch of one locator whose slice has zero points
  returns the success dictionary with that path, while the lists of written files and of
  created directories are what they were before, so the success status does not say that
  the file exists.
\<close>

theorem C9_success_carries_image_path:
  "(process_locators_for_obj e w p locs out = (Inr (ok, rs), w') \<longrightarrow>
      (\<forall>r \<in> set rs.
         map_of r ''status'' = Some ''success'' \<longrightarrow>
         (\<exists>ident. map_of r ''id'' = Some ident
            \<and> map_of r ''image_path'' = Some (path_join out (ident @ ''.png'')))))
   \<and> (calculate_plane_normal_call (get_or (loc_rx loc) (JFloat 0)) (get_or (loc_ry loc) (JFloat 0))
           (get_or (loc_rz loc) (JFloat 0)) = Inr normal
      \<and> read_mesh e (length (calls w)) p = Returns m \<and> 0 < n_points m
      \<and> slice_mesh e (length (calls w)) m normal
           (num_value (get_or (loc_x loc) (JFloat 0)), num_value (get_or (loc_y loc) (JFloat 0)),
            num_value (get_or (loc_z loc) (JFloat 0))) = Returns pd
      \<and> length (points pd) = 0 \<longrightarrow>
      (\<not> stdout_rejects e p
         \<and> \<not> stdout_rejects e
               (get_or (loc_id loc) (''unknown_loc_'' @ str_nat (randint e (draws w) mod 1000))) \<longrightarrow>
         fst (process_locators_for_obj e w p [loc] out)
           = Inr (True, [success_entry out
                (get_or (loc_id loc) (''unknown_loc_'' @ str_nat (randint e (draws w) mod 1000)))]))
      \<and> (\<forall>ok1 rs1. fst (process_locators_for_obj e w p [loc] out) = Inr (ok1, rs1) \<longrightarrow>
            rs1 = [success_entry out
                (get_or (loc_id loc) (''unknown_loc_'' @ str_nat (randint e (draws w) mod 1000)))])
      \<and> written (snd (process_locators_for_obj e w p [loc] out)) = written w
      \<and> made_dirs (snd (process_locators_for_obj e w p [loc] out)) = made_dirs w)"
proof (intro conjI impI ballI)
  fix r
  assume run: "process_locators_for_obj e w p locs out = (Inr (ok, rs), w')"
    and "r \<in> set rs" and ok: "map_of r ''status'' = Some ''success''"
  from batch_returns(3) [OF run] have len: "length rs = length locs"
    by (rule loop_returns_length)
  with \<open>r \<in> set rs\<close> obtain i where i: "i < length locs" and r: "r = rs ! i"
    by (auto simp add: in_set_conv_nth)
  let ?ident = "get_or (loc_id (locs ! i))
      (''unknown_loc_'' @ str_nat (randint e (draws w + i) mod 1000))"
  from batch_entry [OF run i] r
  have "r = success_entry out ?ident \<or> r = error_entry ?ident"
    by (auto split: if_splits)
  with ok have "r = success_entry out ?ident"
    by (auto simp add: entry_fields)
  then show "\<exists>ident. map_of r ''id'' = Some ident
         \<and> map_of r ''image_path'' = Some (path_join out (ident @ ''.png''))"
    by (auto simp add: entry_fields)
next
  let ?ident = "get_or (loc_id loc) (''unknown_loc_'' @ str_nat (randint e (draws w) mod 1000))"
  let ?origin = "(num_value (get_or (loc_x loc) (JFloat 0)), num_value (get_or (loc_y loc) (JFloat 0)),
            num_value (get_or (loc_z loc) (JFloat 0)))"
  let ?w1 = "w\<lparr>draws := draws w + 1\<rparr>"
  assume a: "calculate_plane_normal_call (get_or (loc_rx loc) (JFloat 0)) (get_or (loc_ry loc) (JFloat 0))
           (get_or (loc_rz loc) (JFloat 0)) = Inr normal
      \<and> read_mesh e (length (calls w)) p = Returns m \<and> 0 < n_points m
      \<and> slice_mesh e (length (calls w)) m normal ?origin = Returns pd
      \<and> length (points pd) = 0"
  then have h: "read_mesh e (length (calls ?w1)) p = Returns m"
    "0 < n_points m" "slice_mesh e (length (calls ?w1)) m normal ?origin = Returns pd"
    "points pd = []"
    by simp_all
  have batch: "process_locators_for_obj e w p [loc] out =
      (if stdout_rejects e p then (Inl UnicodeEncodeError, w)
       else if stdout_rejects e ?ident
       then (Inl UnicodeEncodeError, ?w1\<lparr>calls := calls ?w1 @ [?ident]\<rparr>)
       else (Inr (True, [success_entry out ?ident]), ?w1\<lparr>calls := calls ?w1 @ [?ident]\<rparr>))"
  proof (cases "stdout_rejects e ?ident")
    case True
    from create_slice_unprintable [OF True, of ?w1 p ?origin normal 200 out] a True show ?thesis
      by (simp add: process_locators_for_obj_def process_locator_def Let_def)
  next
    case False
    from create_slice_empty [OF False h, of 200 out] a False show ?thesis
      by (simp add: process_locators_for_obj_def process_locator_def Let_def)
  qed
  show "fst (process_locators_for_obj e w p [loc] out) = Inr (True, [success_entry out ?ident])"
    if "\<not> stdout_rejects e p \<and> \<not> stdout_rejects e ?ident"
    using that by (simp add: batch)
  show "\<forall>ok1 rs1. fst (process_locators_for_obj e w p [loc] out) = Inr (ok1, rs1) \<longrightarrow>
            rs1 = [success_entry out ?ident]"
    by (simp add: batch)
  show "written (snd (process_locators_for_obj e w p [loc] out)) = written w"
    by (simp add: batch)
  show "made_dirs (snd (process_locators_for_obj e w p [loc] out)) = made_dirs w"
    by (simp add: batch)
qed

theorem C9_success_carries_image_path_witness:
  "process_locators_for_obj cube_env world0 cube_path [locator_at (Some ''far'') 0 0 500] slices_dir
     = (Inr (True, [success_entry slices_dir ''far'']), world0\<lparr>draws := 1, calls := [''far'']\<rparr>)
   \<and> success_entry slices_dir ''far'' \<in> set [success_entry slices_dir ''far'']
   \<and> map_of (success_entry slices_dir ''far'') ''status'' = Some ''success''
   \<and> map_of (success_entry slices_dir ''far'') ''image_path''
        = Some ''/srv/app/data/generated_slices/far.png''
   \<and> ''/srv/app/data/generated_slices/far.png''
        \<notin> set (written (snd (process_locators_for_obj cube_env world0 cube_path
                   [locator_at (Some ''far'') 0 0 500] slices_dir)))"
proof -
  let ?loc = "locator_at (Some ''far'') 0 0 500"
  have run: "process_locators_for_obj cube_env world0 cube_path [?loc] slices_dir
     = (Inr (True, [success_entry slices_dir ''far'']), world0\<lparr>draws := 1, calls := [''far'']\<rparr>)"
    by (simp add: process_locators_for_obj_def process_locator_def calculate_plane_normal_call_def
      create_slice_image_pyvista_def outer_except_def np_rejects_def num_value_def cube_env_def
      world0_def locator_at_def get_or_def Let_def cube_path_def)
  have n: "calculate_plane_normal_call (get_or (loc_rx ?loc) (JFloat 0)) (get_or (loc_ry ?loc) (JFloat 0))
           (get_or (loc_rz ?loc) (JFloat 0)) = Inr (calculate_plane_normal 0 0 0)"
    by (simp add: calculate_plane_normal_call_def np_rejects_def num_value_def locator_at_def
        get_or_def)
  have h: "read_mesh cube_env (length (calls world0)) cube_path = Returns \<lparr>n_points = 8\<rparr>"
    "slice_mesh cube_env (length (calls world0)) \<lparr>n_points = 8\<rparr> v (0, 0, 500)
        = Returns \<lparr>truthy = True, points = []\<rparr>" for v
    by (simp_all add: cube_env_def)
  have o: "(num_value (get_or (loc_x ?loc) (JFloat 0)), num_value (get_or (loc_y ?loc) (JFloat 0)),
            num_value (get_or (loc_z ?loc) (JFloat 0))) = (0, 0, 500)"
    by (simp add: num_value_def locator_at_def get_or_def)
  have path: "path_join slices_dir ''far.png'' = ''/srv/app/data/generated_slices/far.png''"
    by (simp add: path_join_def isabs_def slices_dir_def)
  have fresh: "written world0 = []"
    by (simp add: world0_def)
  show ?thesis
    using run n h o fresh
      C9_success_carries_image_path [of cube_env world0 cube_path "[?loc]" slices_dir True
        "[success_entry slices_dir ''far'']" "world0\<lparr>draws := 1, calls := [''far'']\<rparr>"
        ?loc "calculate_plane_normal 0 0 0" "\<lparr>n_points = 8\<rparr>" "\<lparr>truthy = True, points = []\<rparr>"]
    by (simp add: entry_fields path)
qed

section \<open>Properties of the handler\<close>

lemma resolve_unresolvable:
  "spec_unresolvable e inp \<Longrightarrow> \<exists>msg. resolve_path e inp = Inl (ErrorBody msg, 404)"
  by (auto simp add: spec_unresolvable_def resolve_path_def Let_def)

text \<open>
  C8, as the specification states it, fails: a request whose path cannot be resolved and
  whose list of locators is empty is answered with 400, not with 404.
\<close>

theorem C8_unresolvable_counterexample:
  "spec_unresolvable cube_env ''missing.obj''
   \<and> snd (fst (slice_model_endpoint cube_env world0
         (Returns (Object \<lparr>req_obj_file_path = Some ''missing.obj'', req_locators = Some []\<rparr>))))
       = 400"
  by (simp add: spec_unresolvable_def cube_env_def isabs_def path_join_def cube_path_def
      broken_path_def slice_model_endpoint_def py_not_def)

text \<open>
  C8, amended. For every request whose \<open>obj_file_path\<close> cannot be resolved: if the request
  passes the validation of its fields (a non-empty path and a non-empty list of locators)
  the handler answers with 404, otherwise with 400; in both cases the world is left as it
  was, so the output directory is not created and no locator is processed.
\<close>

theorem C8_unresolvable_path:
  assumes "spec_unresolvable e inp"
  shows "(\<not> py_not (Some inp) \<and> \<not> py_not lso \<longrightarrow>
            snd (fst (slice_model_endpoint e w
              (Returns (Object \<lparr>req_obj_file_path = Some inp, req_locators = lso\<rparr>)))) = 404)
         \<and> (py_not (Some inp) \<or> py_not lso \<longrightarrow>
            snd (fst (slice_model_endpoint e w
              (Returns (Object \<lparr>req_obj_file_path = Some inp, req_locators = lso\<rparr>)))) = 400)
         \<and> snd (slice_model_endpoint e w
              (Returns (Object \<lparr>req_obj_file_path = Some inp, req_locators = lso\<rparr>))) = w"
proof -
  from resolve_unresolvable [OF assms] obtain msg
    where "resolve_path e inp = Inl (ErrorBody msg, 404)"
    by blast
  then show ?thesis
    by (simp add: slice_model_endpoint_def get_or_def Let_def)
qed

theorem C8_unresolvable_path_witness:
  "spec_unresolvable cube_env ''missing.obj''
   \<and> \<not> py_not (Some ''missing.obj'') \<and> \<not> py_not (Some [locator_at (Some ''a'') 0 0 0])
   \<and> snd (fst (slice_model_endpoint cube_env world0
         (Returns (Object \<lparr>req_obj_file_path = Some ''missing.obj'',
                            req_locators = Some [locator_at (Some ''a'') 0 0 0]\<rparr>)))) = 404
   \<and> py_not (None :: locator list option)
   \<and> snd (fst (slice_model_endpoint cube_env world0
         (Returns (Object \<lparr>req_obj_file_path = Some ''missing.obj'', req_locators = None\<rparr>)))) = 400
   \<and> snd (slice_model_endpoint cube_env world0
         (Returns (Object \<lparr>req_obj_file_path = Some ''missing.obj'',
                            req_locators = Some [locator_at (Some ''a'') 0 0 0]\<rparr>))) = world0"
proof -
  have h: "spec_unresolvable cube_env ''missing.obj''"
    by (simp add: spec_unresolvable_def cube_env_def isabs_def path_join_def cube_path_def
        broken_path_def)
  have v: "\<not> py_not (Some ''missing.obj'')" "\<not> py_not (Some [locator_at (Some ''a'') 0 0 0])"
    "py_not (None :: locator list option)"
    by (simp_all add: py_not_def)
  show ?thesis
    using h v
      C8_unresolvable_path [OF h, of "Some [locator_at (Some ''a'') 0 0 0]" world0]
      C8_unresolvable_path [OF h, of None world0]
    by simp
qed

text \<open>
  C10. A request whose \<open>locators\<close> field is the empty list, or whose \<open>obj_file_path\<close> is
  the empty string, gets the response of a request without that field: status 400 with
  the message of a missing field, and the world is left as it was, so no directory is
  created and no locator is processed. Where dropping the field would leave the object
  empty, the response is still a 400.
\<close>

theorem C10_empty_fields_rejected:
  "slice_model_endpoint e w (Returns (Object \<lparr>req_obj_file_path = po, req_locators = Some []\<rparr>))
     = ((ErrorBody ''Missing obj_file_path or locators_data'', 400), w)
   \<and> slice_model_endpoint e w (Returns (Object \<lparr>req_obj_file_path = Some [], req_locators = lso\<rparr>))
     = ((ErrorBody ''Missing obj_file_path or locators_data'', 400), w)
   \<and> slice_model_endpoint e w (Returns (Object \<lparr>req_obj_file_path = po, req_locators = Some []\<rparr>))
     = slice_model_endpoint e w (Returns (Object \<lparr>req_obj_file_path = po, req_locators = None\<rparr>))
   \<and> slice_model_endpoint e w (Returns (Object \<lparr>req_obj_file_path = Some [], req_locators = lso\<rparr>))
     = slice_model_endpoint e w (Returns (Object \<lparr>req_obj_file_path = None, req_locators = lso\<rparr>))
   \<and> slice_model_endpoint e w (Returns Falsy) = ((ErrorBody ''Invalid JSON payload'', 400), w)"
  by (simp add: slice_model_endpoint_def py_not_def)

theorem C10_empty_fields_rejected_witness:
  "slice_model_endpoint cube_env world0
       (Returns (Object \<lparr>req_obj_file_path = Some ''test_cube.obj'', req_locators = Some []\<rparr>))
     = ((ErrorBody ''Missing obj_file_path or locators_data'', 400), world0)
   \<and> slice_model_endpoint cube_env world0
       (Returns (Object \<lparr>req_obj_file_path = Some [],
                          req_locators = Some [locator_at (Some ''a'') 0 0 0]\<rparr>))
     = ((ErrorBody ''Missing obj_file_path or locators_data'', 400), world0)
   \<and> snd (fst (slice_model_endpoint cube_env world0
       (Returns (Object \<lparr>req_obj_file_path = Some ''test_cube.obj'',
                          req_locators = Some [locator_at (Some ''a'') 0 0 0]\<rparr>)))) = 200"
proof -
  have resolved: "resolve_path cube_env ''test_cube.obj'' = Inr cube_path"
    by (simp add: resolve_path_def cube_env_def path_join_def isabs_def cube_path_def broken_path_def)
  have dir: "path_join (path_join (base_dir cube_env) ''data'') ''generated_slices'' = slices_dir"
    by (simp add: cube_env_def path_join_def isabs_def slices_dir_def)
  have quiet: "\<not> makedirs_raises cube_env slices_dir"
    by (simp add: cube_env_def)
  have run: "fst (process_locators_for_obj cube_env w cube_path [locator_at (Some ''a'') 0 0 0]
       slices_dir) = Inr (True, [success_entry slices_dir ''a''])" for w
    by (simp add: process_locators_for_obj_def process_locator_def calculate_plane_normal_call_def
      create_slice_image_pyvista_def outer_except_def np_rejects_def num_value_def cube_env_def
      locator_at_def get_or_def Let_def cube_path_def)
  have accepted: "snd (fst (slice_model_endpoint cube_env world0
       (Returns (Object \<lparr>req_obj_file_path = Some ''test_cube.obj'',
                          req_locators = Some [locator_at (Some ''a'') 0 0 0]\<rparr>)))) = 200"
    using run [of "world0\<lparr>made_dirs := made_dirs world0 @ [slices_dir]\<rparr>"]
    by (auto simp add: slice_model_endpoint_def py_not_def get_or_def resolved dir quiet Let_def
        split: prod.splits sum.splits)
  show ?thesis
    using accepted
      C10_empty_fields_rejected [of cube_env world0 "Some ''test_cube.obj''"
        "Some [locator_at (Some ''a'') 0 0 0]"]
    by simp
qed

end
